theory Spec2Isabelle
  imports Complex_Main
begin

section \<open>Numbers: Python \<open>Decimal\<close> and the engine's REAL columns\<close>

text \<open>
  \<open>database.py\<close> computes with Python \<open>Decimal\<close> values and binds their \<open>str\<close> to columns
  declared \<open>REAL\<close>. SQLite gives such a column REAL affinity: a text that is a numeric
  literal is converted to a binary64 floating point number before it is stored, any other
  text is stored as text. Reading the column hands Python a \<open>float\<close>, and the code turns
  it back into a \<open>Decimal\<close> with \<open>Decimal(str(x))\<close>.

  A finite number is represented by its exact rational value. The functions below are the
  parts of Python and of the engine that the source relies on; they are not in
  \<open>database.py\<close> itself:
  \<^item> \<open>round_sig n\<close>: rounding to \<open>n\<close> significant decimal digits, ties to even (the
    \<open>Decimal\<close> context, precision 28, and the digits of \<open>repr\<close>);
  \<^item> \<open>to_real\<close>: the binary64 number nearest to a decimal text, ties to even, with overflow
    to an infinity and gradual underflow (the engine's conversion is taken to round
    correctly);
  \<^item> \<open>py_repr\<close>: the decimal that \<open>str\<close> of a float denotes, the shortest one (at most 17
    digits) that converts back to the same float.
  Signalling NaNs, the sign of zero and the exponent limits of the \<open>Decimal\<close> context are
  not represented.
\<close>

definition rnd_even :: "rat \<Rightarrow> int" where
  "rnd_even q =
     (let f = \<lfloor>q\<rfloor>; r = q - of_int f
      in if r < 1 / 2 then f else if 1 / 2 < r then f + 1 else if even f then f else f + 1)"

definition ipow :: "int \<Rightarrow> int \<Rightarrow> rat" where
  "ipow b e = (if 0 \<le> e then of_int b ^ nat e else 1 / of_int b ^ nat (- e))"

text \<open>The number of base-\<open>b\<close> digits of a positive integer.\<close>

function ndigits :: "int \<Rightarrow> int \<Rightarrow> nat" where
  "ndigits b n = (if 1 < b \<and> 0 < n then Suc (ndigits b (n div b)) else 0)"
  by pat_completeness auto
termination
  by (relation "measure (\<lambda>(b, n). nat n)")
     (auto simp: pos_imp_zdiv_nonneg_iff intro!: int_div_less_self)

declare ndigits.simps [simp del]

text \<open>\<open>ilog b x\<close> is the integer part of the base-\<open>b\<close> logarithm of a positive \<open>x\<close>.\<close>

definition ilog :: "int \<Rightarrow> rat \<Rightarrow> int" where
  "ilog b x =
     (if 1 \<le> x then int (ndigits b \<lfloor>x\<rfloor>) - 1
      else - int (ndigits b (\<lceil>1 / x\<rceil> - 1)))"

definition round_sig :: "nat \<Rightarrow> rat \<Rightarrow> rat" where
  "round_sig n x =
     (if x = 0 then 0
      else let k = ilog 10 \<bar>x\<bar> - (int n - 1)
           in of_int (rnd_even (x / ipow 10 k)) * ipow 10 k)"

text \<open>
  The values a cell can hold. \<open>SInf True\<close> is the float \<open>+inf\<close>, \<open>SInf False\<close> is
  \<open>-inf\<close>; the engine never stores a NaN.
\<close>

datatype sqlval = SNull | SInt int | SReal rat | SInf bool | SText string

text \<open>
  Binary64: 53 significant bits, least exponent \<open>-1074\<close>, largest finite number
  \<open>(2^53 - 1) * 2^971\<close>.
\<close>

definition to_real :: "rat \<Rightarrow> sqlval" where
  "to_real x =
     (if x = 0 then SReal 0
      else let e = max (ilog 2 \<bar>x\<bar> - 52) (- 1074);
               m = rnd_even (\<bar>x\<bar> / ipow 2 e)
           in if 971 < e \<or> (e = 971 \<and> 2 ^ 53 \<le> m) then SInf (0 < x)
              else SReal (if x < 0 then - (of_int m * ipow 2 e) else of_int m * ipow 2 e))"

fun shortest :: "nat \<Rightarrow> nat \<Rightarrow> rat \<Rightarrow> rat" where
  "shortest 0 n r = round_sig n r"
| "shortest (Suc k) n r =
     (if to_real (round_sig n r) = SReal r then round_sig n r else shortest k (Suc n) r)"

definition py_repr :: "rat \<Rightarrow> rat" where
  "py_repr r = shortest 16 1 r"

subsection \<open>Decimal\<close>

datatype decimal = Fin rat | PInf | NInf | NaN

datatype exn =
  OperationalError | DatabaseError | IntegrityError
  | InvalidOperation | ValueError | TypeError | AttributeError




text \<open>
  \<open>Decimal(s)\<close> for a text cell. A REAL column keeps a text only when it is not a numeric
  literal; the spellings below are the ones \<open>str\<close> of a \<open>Decimal\<close> produces, every other
  text is taken to be rejected.
\<close>

definition decimal_of_text :: "string \<Rightarrow> exn + decimal" where
  "decimal_of_text s =
     (if s = ''Infinity'' then Inr PInf
      else if s = ''-Infinity'' then Inr NInf
      else if s = ''NaN'' then Inr NaN
      else Inl InvalidOperation)"

text \<open>\<open>Decimal(str(x))\<close> for a value \<open>x\<close> read from a row; \<open>Decimal('None')\<close> raises.\<close>

fun py_decimal :: "sqlval \<Rightarrow> exn + decimal" where
  "py_decimal SNull = Inl InvalidOperation"
| "py_decimal (SInt i) = Inr (Fin (of_int i))"
| "py_decimal (SReal r) = Inr (Fin (py_repr r))"
| "py_decimal (SInf b) = Inr (if b then PInf else NInf)"
| "py_decimal (SText s) = decimal_of_text s"

text \<open>
  \<open>str(d)\<close> bound to a column with REAL affinity: the text of a finite decimal is a
  numeric literal and becomes a float, the other texts stay texts.
\<close>

fun bind_decimal :: "decimal \<Rightarrow> sqlval" where
  "bind_decimal (Fin a) = to_real a"
| "bind_decimal PInf = SText ''Infinity''"
| "bind_decimal NInf = SText ''-Infinity''"
| "bind_decimal NaN = SText ''NaN''"

section \<open>The tables\<close>

text \<open>
  The rows of the five tables of \<open>init_db\<close>, in the order the engine scans them. Left out
  are the columns that no operation of \<open>database.py\<close> reads or writes and the columns the
  engine fills by itself (row ids from AUTOINCREMENT, \<open>CURRENT_TIMESTAMP\<close> values). An
  identifier is an integer that an INTEGER column can hold.
\<close>

record user_row =
  user_id :: int
  username :: "string option"
  first_name :: "string option"
  balance :: sqlval
  joined_date :: string
  last_activity :: string
  status :: string
  created_at :: "string option"

record history_row =
  h_user_id :: int
  old_balance :: sqlval
  new_balance :: sqlval
  change_amount :: sqlval
  transaction_type :: string
  h_admin_id :: int

record order_row =
  o_user_id :: int
  price :: sqlval
  o_status :: string

record transaction_row =
  tx_id :: string
  t_user_id :: int
  t_amount :: sqlval
  t_type :: string
  payment_method :: string
  payment_details :: string
  payment_subtype :: "string option"
  payment_number :: "string option"
  original_amount :: sqlval
  original_currency :: "string option"
  exchange_rate :: sqlval
  t_status :: string

text \<open>The \<open>details\<close> f-strings, kept symbolic.\<close>

datatype details =
  User_was_banned int | User_was_unbanned int | Modified_balance_by decimal

record admin_log_row =
  admin_id :: int
  action :: string
  log_details :: details
  target_user_id :: int

record db =
  users :: "user_row list"
  balance_history :: "history_row list"
  orders :: "order_row list"
  transactions :: "transaction_row list"
  admin_logs :: "admin_log_row list"

section \<open>The world an operation runs in\<close>

text \<open>
  \<^item> \<open>store\<close>: what the connection in use sees;
  \<^item> \<open>saved\<close>: inside \<open>BEGIN ... COMMIT/ROLLBACK\<close>, the content to return to on rollback;
  \<^item> \<open>open_conns\<close>: connections opened and not closed;
  \<^item> \<open>conn\<close>: the operation's local variable \<open>conn\<close>, \<open>True\<close> when it holds a handle;
  \<^item> \<open>errlog\<close>: the calls of \<open>logger.error\<close>;
  \<^item> \<open>faults\<close>: what the engine will do at its next calls, one entry per call:
    \<open>Some e\<close> makes that call raise \<open>e\<close>; an exhausted list means no more failures.
\<close>

record world =
  store :: db
  saved :: "db option"
  open_conns :: nat
  conn :: bool
  errlog :: "(string \<times> exn) list"
  faults :: "exn option list"

type_synonym 'a prog = "world \<Rightarrow> (exn + 'a) \<times> world"

definition return :: "'a \<Rightarrow> 'a prog" where
  "return x w = (Inr x, w)"

definition raise :: "exn \<Rightarrow> 'a prog" where
  "raise e w = (Inl e, w)"

definition bind :: "'a prog \<Rightarrow> ('a \<Rightarrow> 'b prog) \<Rightarrow> 'b prog" where
  "bind m f w = (case m w of (Inl e, w') \<Rightarrow> (Inl e, w') | (Inr x, w') \<Rightarrow> f x w')"

definition lift :: "exn + 'a \<Rightarrow> 'a prog" where
  "lift r w = (r, w)"

definition try_except :: "'a prog \<Rightarrow> (exn \<Rightarrow> 'a prog) \<Rightarrow> 'a prog" where
  "try_except m h w = (case m w of (Inl e, w') \<Rightarrow> h e w' | (Inr x, w') \<Rightarrow> (Inr x, w'))"

definition try_finally :: "'a prog \<Rightarrow> unit prog \<Rightarrow> 'a prog" where
  "try_finally m fin w =
     (case m w of (r, w') \<Rightarrow>
        (case fin w' of (Inl e, w'') \<Rightarrow> (Inl e, w'') | (Inr _, w'') \<Rightarrow> (r, w'')))"

definition logger_error :: "string \<Rightarrow> exn \<Rightarrow> unit prog" where
  "logger_error msg e w = (Inr (), w\<lparr>errlog := errlog w @ [(msg, e)]\<rparr>)"

subsection \<open>The engine\<close>

definition engine_step :: "unit prog" where
  "engine_step w =
     (case faults w of
        [] \<Rightarrow> (Inr (), w)
      | None # fs \<Rightarrow> (Inr (), w\<lparr>faults := fs\<rparr>)
      | Some e # fs \<Rightarrow> (Inl e, w\<lparr>faults := fs\<rparr>))"

definition modify_store :: "(db \<Rightarrow> db) \<Rightarrow> unit prog" where
  "modify_store f w = (Inr (), w\<lparr>store := f (store w)\<rparr>)"

definition read_store :: "(db \<Rightarrow> 'a) \<Rightarrow> 'a prog" where
  "read_store f w = (Inr (f (store w)), w)"

text \<open>
  The connections are opened with \<open>isolation_level=None\<close>: the statements \<open>BEGIN\<close>,
  \<open>COMMIT\<close> and \<open>ROLLBACK\<close> are the code's own.
\<close>

definition execute_begin :: "unit prog" where
  "execute_begin =
     bind engine_step (\<lambda>_ w.
       case saved w of
         Some _ \<Rightarrow> (Inl OperationalError, w)
       | None \<Rightarrow> (Inr (), w\<lparr>saved := Some (store w)\<rparr>))"

definition execute_commit :: "unit prog" where
  "execute_commit =
     bind engine_step (\<lambda>_ w.
       case saved w of
         None \<Rightarrow> (Inl OperationalError, w)
       | Some _ \<Rightarrow> (Inr (), w\<lparr>saved := None\<rparr>))"

definition execute_rollback :: "unit prog" where
  "execute_rollback =
     bind engine_step (\<lambda>_ w.
       case saved w of
         None \<Rightarrow> (Inl OperationalError, w)
       | Some s \<Rightarrow> (Inr (), w\<lparr>store := s, saved := None\<rparr>))"

text \<open>Closing a connection abandons a transaction that is still open.\<close>

definition close :: "unit prog" where
  "close w =
     (Inr (), w\<lparr>store := (case saved w of None \<Rightarrow> store w | Some s \<Rightarrow> s),
                saved := None, open_conns := open_conns w - 1\<rparr>)"

subsection \<open>\<open>get_connection\<close>\<close>

text \<open>
  One round of the retry loop: \<open>sqlite3.connect\<close> and the two PRAGMA statements. A new
  handle has no transaction open. A handle whose PRAGMA fails is dropped without being
  closed.
\<close>

definition open_handle :: "unit prog" where
  "open_handle w = (Inr (), w\<lparr>open_conns := Suc (open_conns w), saved := None\<rparr>)"

definition connect_once :: "unit prog" where
  "connect_once =
     bind engine_step (\<lambda>_. bind open_handle (\<lambda>_. bind engine_step (\<lambda>_. engine_step)))"

text \<open>
  \<open>attempts n\<close> is the loop with \<open>n\<close> rounds left; the last round is \<open>i == 4\<close>. Only
  \<open>sqlite3.OperationalError\<close> is caught, and \<open>time.sleep\<close> has no effect on the state.
  A loop that ends without returning yields Python's \<open>None\<close>, here \<open>False\<close>.
\<close>

fun attempts :: "nat \<Rightarrow> bool prog" where
  "attempts 0 w = (Inr False, w)"
| "attempts (Suc n) w =
     (case connect_once w of
        (Inr _, w') \<Rightarrow> (Inr True, w')
      | (Inl e, w') \<Rightarrow>
          if e = OperationalError then
            (if n = 0 then
               bind (logger_error ''Failed to connect to database after 5 attempts'' e)
                 (\<lambda>_. raise e) w'
             else attempts n w')
          else (Inl e, w'))"

definition get_connection :: "bool prog" where
  "get_connection = attempts 5"

text \<open>
  \<open>conn = None\<close>, then \<open>conn = self.get_connection(); c = conn.cursor()\<close>.
\<close>

definition conn_none :: "unit prog" where
  "conn_none w = (Inr (), w\<lparr>conn := False\<rparr>)"

definition acquire :: "unit prog" where
  "acquire =
     bind get_connection (\<lambda>h w.
       if h then (Inr (), w\<lparr>conn := True\<rparr>) else (Inl AttributeError, w))"

definition if_conn :: "unit prog \<Rightarrow> unit prog" where
  "if_conn m w = (if conn w then m w else (Inr (), w))"

section \<open>Statements\<close>

definition find_user :: "int \<Rightarrow> db \<Rightarrow> user_row option" where
  "find_user uid d = find (\<lambda>u. user_id u = uid) (users d)"







text \<open>
  \<open>INSERT INTO transactions\<close>: \<open>tx_id\<close> is the primary key, \<open>amount\<close> is \<open>NOT NULL\<close>, and
  \<open>type\<close> and \<open>status\<close> have a CHECK. \<open>get_connection\<close> does not switch
  \<open>PRAGMA foreign_keys\<close> on, so the reference to \<open>users\<close> is not enforced.
\<close>

definition insert_transaction :: "transaction_row \<Rightarrow> unit prog" where
  "insert_transaction r =
     bind engine_step (\<lambda>_ w.
       if tx_id r \<in> set (map tx_id (transactions (store w)))
          \<or> t_amount r = SNull
          \<or> t_type r \<notin> {''deposit'', ''withdrawal''}
          \<or> t_status r \<notin> {''pending'', ''completed'', ''rejected'', ''expired''}
       then (Inl IntegrityError, w)
       else modify_store (\<lambda>d. d\<lparr>transactions := transactions d @ [r]\<rparr>) w)"

section \<open>Ledger operations\<close>

text \<open>
  The frame every writing operation has around its statements:
  \<^verbatim>\<open>
  conn = None
  try:
      conn = self.get_connection(); c = conn.cursor()
      ...
  except Exception as e:
      if conn: c.execute("ROLLBACK")
      logger.error(...); return False
  finally:
      if conn: conn.close()
  \<close>
\<close>

definition on_error :: "string \<Rightarrow> exn \<Rightarrow> bool prog" where
  "on_error msg e =
     bind (if_conn execute_rollback) (\<lambda>_. bind (logger_error msg e) (\<lambda>_. return False))"

definition transactional :: "string \<Rightarrow> bool prog \<Rightarrow> bool prog" where
  "transactional msg body =
     bind conn_none (\<lambda>_.
       try_finally (try_except (bind acquire (\<lambda>_. body)) (on_error msg)) (if_conn close))"




text \<open>
  The keyword arguments of \<open>create_transaction\<close>; \<open>None\<close> is an absent key.
  \<open>payment_details\<close> is given by the text \<open>json.dumps\<close> returns for it, the two numbers
  are \<open>Decimal\<close>s, and \<open>original_currency\<close> is a string or Python's \<open>None\<close>.
\<close>

record tx_kwargs =
  kw_payment_details :: "string option"
  kw_original_amount :: "decimal option"
  kw_original_currency :: "string option option"
  kw_exchange_rate :: "decimal option"

definition create_transaction ::
  "string \<Rightarrow> int \<Rightarrow> decimal \<Rightarrow> string \<Rightarrow> string option \<Rightarrow> string option \<Rightarrow> tx_kwargs
    \<Rightarrow> bool prog" where
  "create_transaction tid uid amount method subtype number kwargs =
     transactional ''Error creating transaction''
       (bind execute_begin (\<lambda>_.
        bind (insert_transaction
                \<lparr>tx_id = tid, t_user_id = uid, t_amount = bind_decimal amount,
                 t_type = ''deposit'', payment_method = method,
                 payment_details =
                   (case kw_payment_details kwargs of None \<Rightarrow> ''{}'' | Some j \<Rightarrow> j),
                 payment_subtype = subtype, payment_number = number,
                 original_amount =
                   bind_decimal (case kw_original_amount kwargs of None \<Rightarrow> amount | Some d \<Rightarrow> d),
                 original_currency =
                   (case kw_original_currency kwargs of None \<Rightarrow> Some ''SYP'' | Some c \<Rightarrow> c),
                 exchange_rate =
                   (case kw_exchange_rate kwargs of None \<Rightarrow> SReal 1 | Some d \<Rightarrow> bind_decimal d),
                 t_status = ''pending''\<rparr>) (\<lambda>_.
        bind execute_commit (\<lambda>_. return True))))"

section \<open>Query operations\<close>

text \<open>
  The frame of the reading operations: the handler logs and returns the operation's
  fixed value, and \<open>finally\<close> closes the connection.
\<close>

definition query :: "string \<Rightarrow> 'a \<Rightarrow> 'a prog \<Rightarrow> 'a prog" where
  "query msg sentinel try_block =
     bind conn_none (\<lambda>_.
       try_finally
         (try_except try_block (\<lambda>e. bind (logger_error msg e) (\<lambda>_. return sentinel)))
         (if_conn close))"

text \<open>\<open>username.lstrip('@')\<close> removes every leading \<open>@\<close>.\<close>

definition lstrip_at :: "string \<Rightarrow> string" where
  "lstrip_at s = dropWhile (\<lambda>c. c = CHR ''@'') s"

text \<open>\<open>SELECT user_id FROM users WHERE username = ?\<close>: the column's collation is BINARY.\<close>

definition select_user_id :: "string \<Rightarrow> int option prog" where
  "select_user_id name =
     bind engine_step (\<lambda>_.
       read_store (\<lambda>d. map_option user_id (find (\<lambda>u. username u = Some name) (users d))))"

definition get_user_id_by_username_try :: "string \<Rightarrow> int option prog" where
  "get_user_id_by_username_try name =
     bind acquire (\<lambda>_. bind (select_user_id (lstrip_at name)) return)"

definition get_user_id_by_username :: "string \<Rightarrow> int option prog" where
  "get_user_id_by_username name =
     query ''Error getting user ID'' None (get_user_id_by_username_try name)"

definition get_total_users_try :: "nat prog" where
  "get_total_users_try =
     bind acquire (\<lambda>_. bind engine_step (\<lambda>_. read_store (\<lambda>d. length (users d))))"

definition get_total_users :: "nat prog" where
  "get_total_users = query ''Error getting total users'' 0 get_total_users_try"

text \<open>
  \<open>recent\<close> stands for \<open>datetime(last_activity) > datetime('now', '-1 day')\<close>, which
  depends on the clock.
\<close>

definition get_active_users_last_24h_try :: "(string \<Rightarrow> bool) \<Rightarrow> nat prog" where
  "get_active_users_last_24h_try recent =
     bind acquire (\<lambda>_.
     bind engine_step (\<lambda>_.
       read_store
         (\<lambda>d. length (filter (\<lambda>u. recent (last_activity u) \<and> status u = ''active'') (users d)))))"

definition get_active_users_last_24h :: "(string \<Rightarrow> bool) \<Rightarrow> nat prog" where
  "get_active_users_last_24h recent =
     query ''Error getting active users'' 0 (get_active_users_last_24h_try recent)"

text \<open>
  \<open>SUM\<close> is NULL over no rows; \<open>agg\<close> stands for the engine's floating point summation
  of a non-empty column. \<open>COALESCE(..., 0)\<close> replaces a NULL by the integer 0.
\<close>

definition sql_sum :: "(sqlval list \<Rightarrow> sqlval) \<Rightarrow> sqlval list \<Rightarrow> sqlval" where
  "sql_sum agg xs = (if xs = [] then SNull else agg xs)"

definition coalesce0 :: "sqlval \<Rightarrow> sqlval" where
  "coalesce0 v = (if v = SNull then SInt 0 else v)"

definition select_volume :: "(sqlval list \<Rightarrow> sqlval) \<Rightarrow> sqlval prog" where
  "select_volume agg =
     bind engine_step (\<lambda>_.
       read_store
         (\<lambda>d. coalesce0
                (sql_sum agg
                   (map t_amount (filter (\<lambda>t. t_status t = ''completed'') (transactions d))))))"

definition get_total_transaction_volume_try :: "(sqlval list \<Rightarrow> sqlval) \<Rightarrow> decimal prog" where
  "get_total_transaction_volume_try agg =
     bind acquire (\<lambda>_. bind (select_volume agg) (\<lambda>total. lift (py_decimal total)))"

text \<open>This operation has no \<open>finally\<close> clause.\<close>

definition get_total_transaction_volume :: "(sqlval list \<Rightarrow> sqlval) \<Rightarrow> decimal prog" where
  "get_total_transaction_volume agg =
     bind conn_none (\<lambda>_.
       try_except (get_total_transaction_volume_try agg)
         (\<lambda>e. bind (logger_error ''Error getting transaction volume'' e)
                 (\<lambda>_. return (Fin 0))))"

text \<open>
  \<open>get_user_stats\<close>; \<open>fromisoformat\<close> is \<open>datetime.fromisoformat\<close>, which raises
  \<open>ValueError\<close> on a malformed text and \<open>TypeError\<close> on \<open>None\<close>.
\<close>

record 't user_stats =
  s_user_id :: int
  s_username :: "string option"
  s_first_name :: "string option"
  current_balance :: decimal
  join_date :: 't
  last_active :: 't
  is_banned :: bool
  s_created_at :: 't
  total_transactions :: nat
  total_deposits :: decimal
  total_withdrawals :: decimal
  total_orders :: nat
  total_spent :: decimal

definition select_user :: "int \<Rightarrow> user_row option prog" where
  "select_user uid = bind engine_step (\<lambda>_. read_store (find_user uid))"

definition select_tx_stats ::
  "(sqlval list \<Rightarrow> sqlval) \<Rightarrow> int \<Rightarrow> (nat \<times> sqlval \<times> sqlval) prog" where
  "select_tx_stats agg uid =
     bind engine_step (\<lambda>_.
       read_store
         (\<lambda>d. let rows = filter (\<lambda>t. t_user_id t = uid) (transactions d)
              in (length rows,
                  coalesce0 (sql_sum agg
                    (map (\<lambda>t. if t_type t = ''deposit'' \<and> t_status t = ''completed''
                              then t_amount t else SInt 0) rows)),
                  coalesce0 (sql_sum agg
                    (map (\<lambda>t. if t_type t = ''withdrawal'' \<and> t_status t = ''completed''
                              then t_amount t else SInt 0) rows)))))"

definition select_order_stats ::
  "(sqlval list \<Rightarrow> sqlval) \<Rightarrow> int \<Rightarrow> (nat \<times> sqlval) prog" where
  "select_order_stats agg uid =
     bind engine_step (\<lambda>_.
       read_store
         (\<lambda>d. let rows = filter (\<lambda>r. o_user_id r = uid) (orders d)
              in (length rows,
                  coalesce0 (sql_sum agg
                    (map (\<lambda>r. if o_status r = ''completed'' then price r else SInt 0) rows)))))"

definition get_user_stats_try ::
  "(string \<Rightarrow> exn + 't) \<Rightarrow> (sqlval list \<Rightarrow> sqlval) \<Rightarrow> int \<Rightarrow> 't user_stats option prog" where
  "get_user_stats_try fromisoformat agg uid =
     bind acquire (\<lambda>_.
     bind (select_user uid) (\<lambda>user.
       case user of
         None \<Rightarrow> return None
       | Some u \<Rightarrow>
           bind (select_tx_stats agg uid) (\<lambda>(total_tx, deposits, withdrawals).
           bind (select_order_stats agg uid) (\<lambda>(n_orders, spent).
           bind (lift (py_decimal (balance u))) (\<lambda>bal.
           bind (lift (fromisoformat (joined_date u))) (\<lambda>joined.
           bind (lift (fromisoformat (last_activity u))) (\<lambda>active.
           bind (lift (case created_at u of None \<Rightarrow> Inl TypeError
                       | Some t \<Rightarrow> fromisoformat t)) (\<lambda>created.
           bind (lift (py_decimal deposits)) (\<lambda>dep.
           bind (lift (py_decimal withdrawals)) (\<lambda>wd.
           bind (lift (py_decimal spent)) (\<lambda>sp.
             return (Some
               \<lparr>s_user_id = uid, s_username = username u, s_first_name = first_name u,
                current_balance = bal, join_date = joined, last_active = active,
                is_banned = (status u = ''banned''), s_created_at = created,
                total_transactions = total_tx, total_deposits = dep,
                total_withdrawals = wd, total_orders = n_orders,
                total_spent = sp\<rparr>))))))))))))"

definition get_user_stats ::
  "(string \<Rightarrow> exn + 't) \<Rightarrow> (sqlval list \<Rightarrow> sqlval) \<Rightarrow> int \<Rightarrow> 't user_stats option prog" where
  "get_user_stats fromisoformat agg uid =
     query ''Error getting user stats'' None (get_user_stats_try fromisoformat agg uid)"

section \<open>Sequences of calls and example states\<close>






text \<open>
  The account of the specification's example scenario, after its first deposit, and a
  store that holds only this account.
\<close>

definition account_1001 :: user_row where
  "account_1001 =
     \<lparr>user_id = 1001, username = Some ''Alice'', first_name = Some ''Alice'',
      balance = SReal 50000, joined_date = ''2024-01-01T00:00:00'',
      last_activity = ''2024-01-02T00:00:00'', status = ''active'',
      created_at = Some ''2024-01-01 00:00:00''\<rparr>"

definition shop :: world where
  "shop =
     \<lparr>store = \<lparr>users = [account_1001], balance_history = [], orders = [],
               transactions = [], admin_logs = []\<rparr>,
      saved = None, open_conns = 0, conn = False, errlog = [], faults = []\<rparr>"



text \<open>A call without keyword arguments, and the example store after one deposit request.\<close>

definition kw_none :: tx_kwargs where
  "kw_none = \<lparr>kw_payment_details = None, kw_original_amount = None,
              kw_original_currency = None, kw_exchange_rate = None\<rparr>"

definition tx_abc :: transaction_row where
  "tx_abc =
     \<lparr>tx_id = ''tx-abc'', t_user_id = 1001, t_amount = to_real 20000, t_type = ''deposit'',
      payment_method = ''syriatel'', payment_details = ''{}'', payment_subtype = None,
      payment_number = None, original_amount = to_real 20000,
      original_currency = Some ''SYP'', exchange_rate = SReal 1, t_status = ''pending''\<rparr>"

definition shop_tx :: world where
  "shop_tx = shop\<lparr>store := (store shop)\<lparr>transactions := [tx_abc]\<rparr>\<rparr>"

text \<open>The example store when the database file cannot be opened, and an empty store.\<close>

definition shop_down :: world where
  "shop_down = shop\<lparr>faults := [Some DatabaseError]\<rparr>"

definition empty_shop :: world where
  "empty_shop =
     \<lparr>store = \<lparr>users = [], balance_history = [], orders = [], transactions = [],
               admin_logs = []\<rparr>,
      saved = None, open_conns = 0, conn = False, errlog = [], faults = []\<rparr>"

section \<open>Properties of the rounding functions\<close>










lemma to_real_not_null: "to_real x \<noteq> SNull"
  by (simp add: to_real_def Let_def)

subsection \<open>Values used in the examples\<close>

lemma py_repr_50000: "py_repr 50000 = 50000"
  by code_simp




section \<open>Runs without engine failures\<close>

lemma engine_step_nofault: "faults w = [] \<Longrightarrow> engine_step w = (Inr (), w)"
  by (simp add: engine_step_def)

lemma connect_once_nofault:
  "faults w = [] \<Longrightarrow>
   connect_once w = (Inr (), w\<lparr>open_conns := Suc (open_conns w), saved := None\<rparr>)"
  by (simp add: connect_once_def bind_def open_handle_def engine_step_def)

lemma get_connection_nofault:
  "faults w = [] \<Longrightarrow>
   get_connection w = (Inr True, w\<lparr>open_conns := Suc (open_conns w), saved := None\<rparr>)"
  by (simp add: get_connection_def numeral_eq_Suc connect_once_nofault)

lemmas prog_defs =
  bind_def return_def raise_def lift_def try_except_def try_finally_def logger_error_def
  modify_store_def read_store_def execute_begin_def execute_commit_def execute_rollback_def
  close_def conn_none_def acquire_def if_conn_def on_error_def transactional_def
  engine_step_def

lemma shop_facts:
  "faults shop = []"
  "find_user 1001 (store shop) = Some account_1001"
  "py_decimal (balance account_1001) = Inr (Fin 50000)"
  by (simp_all add: shop_def account_1001_def find_user_def py_repr_50000)


section \<open>Runs in which the engine may fail\<close>

text \<open>
  What the statements do to the store, to the open transaction and to \<open>conn\<close>, whatever
  the engine does.
\<close>

lemma engine_step_effect:
  "engine_step w = (r, w') \<Longrightarrow>
   store w' = store w \<and> saved w' = saved w \<and> conn w' = conn w"
  by (auto simp: engine_step_def split: list.splits option.splits)

lemma connect_once_effect:
  "connect_once w = (r, w') \<Longrightarrow>
   store w' = store w \<and> conn w' = conn w \<and> (r = Inr () \<longrightarrow> saved w' = None)"
  by (auto simp: connect_once_def bind_def open_handle_def engine_step_def
      split: list.splits option.splits)

lemma attempts_effect:
  "attempts n w = (r, w') \<Longrightarrow>
   store w' = store w \<and> conn w' = conn w \<and> (r = Inr True \<longrightarrow> saved w' = None)"
proof (induction n arbitrary: w)
  case 0
  then show ?case by auto
next
  case (Suc n)
  obtain r1 w1 where c: "connect_once w = (r1, w1)" by (cases "connect_once w")
  note e = connect_once_effect[OF c]
  show ?case
  proof (cases r1)
    case (Inr u)
    with c Suc.prems e show ?thesis by auto
  next
    case (Inl x)
    show ?thesis
    proof (cases "x = OperationalError \<and> n \<noteq> 0")
      case True
      with c Inl Suc.prems have "attempts n w1 = (r, w')" by simp
      from Suc.IH[OF this] e show ?thesis by simp
    next
      case False
      with c Inl Suc.prems e show ?thesis
        by (auto simp: bind_def logger_error_def raise_def split: if_splits)
    qed
  qed
qed

lemma acquire_effect:
  "acquire w = (r, w') \<Longrightarrow>
   store w' = store w \<and> (case r of Inr _ \<Rightarrow> saved w' = None \<and> conn w' | Inl _ \<Rightarrow> conn w' = conn w)"
proof -
  assume a: "acquire w = (r, w')"
  obtain r1 w1 where g: "get_connection w = (r1, w1)" by (cases "get_connection w")
  from attempts_effect[OF g[unfolded get_connection_def]] a g
  show ?thesis
    by (auto simp: acquire_def bind_def split: sum.splits if_splits)
qed

lemma transactional_cases:
  assumes "\<And>w1. store w1 = store w \<Longrightarrow> saved w1 = None \<Longrightarrow> conn w1 \<Longrightarrow>
             P (try_finally (try_except body (on_error msg)) (if_conn close) w1)"
    and "\<And>w'. store w' = store w \<Longrightarrow> P (Inr False, w')"
  shows "P (transactional msg body w)"
proof -
  let ?w0 = "w\<lparr>conn := False\<rparr>"
  obtain r w1 where a: "acquire ?w0 = (r, w1)" by (cases "acquire ?w0")
  note e = acquire_effect[OF a]
  show ?thesis
  proof (cases r)
    case (Inl x)
    with e have c: "\<not> conn w1" and s: "store w1 = store w" by simp_all
    let ?w' = "w1\<lparr>errlog := errlog w1 @ [(msg, x)]\<rparr>"
    from a Inl c have "transactional msg body w = (Inr False, ?w')"
      by (simp add: transactional_def on_error_def bind_def conn_none_def try_finally_def
          try_except_def if_conn_def logger_error_def return_def)
    moreover have "store ?w' = store w" using s by simp
    ultimately show ?thesis using assms(2) by simp
  next
    case (Inr u)
    with e have w1: "store w1 = store w" "saved w1 = None" "conn w1" by simp_all
    have "transactional msg body w
          = try_finally (try_except body (on_error msg)) (if_conn close) w1"
      using a Inr
      by (simp add: transactional_def bind_def conn_none_def try_finally_def try_except_def)
    with assms(1)[OF w1] show ?thesis by simp
  qed
qed

lemma bindE:
  assumes "bind m f w = (r, w')"
  obtains e where "m w = (Inl e, w')" "r = Inl e"
    | x w1 where "m w = (Inr x, w1)" "f x w1 = (r, w')"
  using assms by (auto simp: bind_def split: prod.splits sum.splits)

lemma execute_begin_effect:
  "execute_begin w = (r, w') \<Longrightarrow>
   conn w' = conn w \<and>
   (case r of Inl _ \<Rightarrow> store w' = store w \<and> saved w' = saved w
    | Inr _ \<Rightarrow> saved w = None \<and> store w' = store w \<and> saved w' = Some (store w))"
  by (auto simp: execute_begin_def bind_def engine_step_def
      split: list.splits option.splits)

lemma insert_transaction_effect:
  "insert_transaction row w = (r, w') \<Longrightarrow>
   conn w' = conn w \<and> saved w' = saved w \<and>
   (case r of Inl _ \<Rightarrow> store w' = store w
    | Inr _ \<Rightarrow> store w' = (store w)\<lparr>transactions := transactions (store w) @ [row]\<rparr>)"
  by (auto simp: insert_transaction_def bind_def engine_step_def modify_store_def
      split: list.splits option.splits if_splits)

lemma execute_commit_effect:
  "execute_commit w = (r, w') \<Longrightarrow>
   conn w' = conn w \<and> store w' = store w \<and>
   (case r of Inl _ \<Rightarrow> saved w' = saved w | Inr _ \<Rightarrow> saved w' = None)"
  by (auto simp: execute_commit_def bind_def engine_step_def
      split: list.splits option.splits)

lemma execute_rollback_effect:
  "execute_rollback w = (r, w') \<Longrightarrow>
   conn w' = conn w \<and>
   (case r of Inl _ \<Rightarrow> store w' = store w \<and> saved w' = saved w
    | Inr _ \<Rightarrow> saved w = Some (store w') \<and> saved w' = None)"
  by (auto simp: execute_rollback_def bind_def engine_step_def
      split: list.splits option.splits)



lemma on_error_post:
  assumes "on_error msg e w2 = (r, w3)" and "conn w2"
  shows "conn w3 \<and>
         ((store w3 = store w2 \<and> saved w3 = saved w2) \<or> (saved w2 = Some (store w3) \<and> saved w3 = None))"
  using assms(1) unfolding on_error_def
proof (cases rule: bindE)
  case (1 x)
  from 1(1) assms(2) have "execute_rollback w2 = (Inl x, w3)" by (simp add: if_conn_def)
  from execute_rollback_effect[OF this] assms(2) show ?thesis by simp
next
  case (2 x wa)
  from 2(1) assms(2) have "execute_rollback w2 = (Inr x, wa)" by (simp add: if_conn_def)
  from execute_rollback_effect[OF this] assms(2) 2(2) show ?thesis
    by (auto simp: bind_def logger_error_def return_def)
qed

lemma close_effect:
  "if_conn close w = (r, w') \<Longrightarrow> conn w \<Longrightarrow>
   store w' = (case saved w of None \<Rightarrow> store w | Some s \<Rightarrow> s)"
  by (auto simp: if_conn_def close_def)

section \<open>\<open>modify_user_balance\<close>\<close>












section \<open>Sequences of \<open>modify_user_balance\<close> calls\<close>





section \<open>\<open>create_transaction\<close>\<close>

text \<open>The two outcomes of a call during which the engine raises no error.\<close>

lemma bind_decimal_not_null: "bind_decimal d \<noteq> SNull"
  by (cases d) (simp_all add: to_real_not_null)


lemma create_fresh:
  assumes "faults w = []" and "tid \<notin> set (map tx_id (transactions (store w)))"
  shows "create_transaction tid uid amount method subtype number kwargs w =
           (Inr True,
            w\<lparr>store := (store w)\<lparr>transactions := transactions (store w) @
                [\<lparr>tx_id = tid, t_user_id = uid, t_amount = bind_decimal amount,
                  t_type = ''deposit'', payment_method = method,
                  payment_details =
                    (case kw_payment_details kwargs of None \<Rightarrow> ''{}'' | Some j \<Rightarrow> j),
                  payment_subtype = subtype, payment_number = number,
                  original_amount =
                    bind_decimal (case kw_original_amount kwargs of None \<Rightarrow> amount | Some d \<Rightarrow> d),
                  original_currency =
                    (case kw_original_currency kwargs of None \<Rightarrow> Some ''SYP'' | Some c \<Rightarrow> c),
                  exchange_rate =
                    (case kw_exchange_rate kwargs of None \<Rightarrow> SReal 1 | Some d \<Rightarrow> bind_decimal d),
                  t_status = ''pending''\<rparr>]\<rparr>,
              saved := None, conn := True\<rparr>)"
  using assms
  by (simp add: create_transaction_def prog_defs get_connection_nofault insert_transaction_def
      bind_decimal_not_null)

lemma shop_tx_facts:
  "faults shop_tx = []"
  "''tx-abc'' \<in> set (map tx_id (transactions (store shop_tx)))"
  "''tx-abc'' \<notin> set (map tx_id (transactions (store shop)))"
  by (simp_all add: shop_tx_def shop_def tx_abc_def)



subsection \<open>How the amount is stored\<close>








subsection \<open>The type of the created row\<close>

lemma insert_body_post:
  assumes "bind execute_begin (\<lambda>_. bind (insert_transaction row)
             (\<lambda>_. bind execute_commit (\<lambda>_. return True))) w1 = (r, w2)"
    and "saved w1 = None"
  shows "conn w2 = conn w1 \<and>
         (case r of
            Inr _ \<Rightarrow> saved w2 = None \<and>
                     store w2 = (store w1)\<lparr>transactions := transactions (store w1) @ [row]\<rparr>
          | Inl _ \<Rightarrow> (saved w2 = None \<and> store w2 = store w1)
                   \<or> (saved w2 = Some (store w1) \<and>
                       (store w2 = store w1 \<or>
                        store w2 = (store w1)\<lparr>transactions := transactions (store w1) @ [row]\<rparr>)))"
  using assms(1)
proof (cases rule: bindE)
  case (1 e)
  from execute_begin_effect[OF 1(1)] 1(2) assms(2) show ?thesis by simp
next
  case (2 x wa)
  note b = execute_begin_effect[OF 2(1)]
  from 2(2) show ?thesis
  proof (cases rule: bindE)
    case (1 e)
    from insert_transaction_effect[OF 1(1)] 1(2) b show ?thesis by simp
  next
    case (2 y wb)
    note i = insert_transaction_effect[OF 2(1)]
    from 2(2) show ?thesis
    proof (cases rule: bindE)
      case (1 e)
      from execute_commit_effect[OF 1(1)] 1(2) b i show ?thesis by simp
    next
      case (2 z wc)
      from execute_commit_effect[OF 2(1)] 2(2) b i show ?thesis
        by (auto simp: return_def)
    qed
  qed
qed

lemma insert_frame_effect:
  assumes "saved w1 = None" "conn w1"
  shows "store (snd (try_finally
           (try_except
              (bind execute_begin (\<lambda>_. bind (insert_transaction row)
                 (\<lambda>_. bind execute_commit (\<lambda>_. return True))))
              (on_error msg))
           (if_conn close) w1)) = store w1
       \<or> store (snd (try_finally
           (try_except
              (bind execute_begin (\<lambda>_. bind (insert_transaction row)
                 (\<lambda>_. bind execute_commit (\<lambda>_. return True))))
              (on_error msg))
           (if_conn close) w1))
          = (store w1)\<lparr>transactions := transactions (store w1) @ [row]\<rparr>"
    (is "store (snd (try_finally (try_except ?B _) _ _)) = _ \<or> _")
proof -
  obtain r w2 where B: "?B w1 = (r, w2)" by (cases "?B w1")
  note bp = insert_body_post[OF B assms(1)]
  obtain r3 w3 where T: "try_except ?B (on_error msg) w1 = (r3, w3)"
    by (cases "try_except ?B (on_error msg) w1")
  obtain r4 w4 where C: "if_conn close w3 = (r4, w4)" by (cases "if_conn close w3")
  have fin: "store (snd (try_finally (try_except ?B (on_error msg)) (if_conn close) w1)) = store w4"
    using T C by (auto simp: try_finally_def split: sum.splits)
  have st: "conn w3 \<and>
        ((saved w3 = None \<and> (store w3 = store w1 \<or>
            store w3 = (store w1)\<lparr>transactions := transactions (store w1) @ [row]\<rparr>))
         \<or> saved w3 = Some (store w1))"
  proof (cases r)
    case (Inr b)
    with B T have "w3 = w2" by (simp add: try_except_def)
    with bp Inr assms(2) show ?thesis by simp
  next
    case (Inl e)
    with B T have "on_error msg e w2 = (r3, w3)" by (simp add: try_except_def)
    from on_error_post[OF this] bp Inl assms(2) show ?thesis by auto
  qed
  from close_effect[OF C] st have
    "store w4 = store w1 \<or> store w4 = (store w1)\<lparr>transactions := transactions (store w1) @ [row]\<rparr>"
    by (auto split: option.splits)
  with fin show ?thesis by simp
qed

text \<open>
  Claim C9. Whatever the engine does during the call, \<open>create_transaction\<close> leaves the
  \<open>transactions\<close> table as it was or appends exactly one row, and that row has type
  \<open>deposit\<close>: no call creates a \<open>withdrawal\<close> row.
\<close>

theorem create_transaction_type_deposit:
  "transactions (store (snd (create_transaction tid uid amount method subtype number kwargs w)))
     = transactions (store w)
   \<or> (\<exists>row. transactions
              (store (snd (create_transaction tid uid amount method subtype number kwargs w)))
              = transactions (store w) @ [row]
            \<and> t_type row = ''deposit'')"
  unfolding create_transaction_def
proof (rule transactional_cases
         [where P = "\<lambda>p. transactions (store (snd p)) = transactions (store w)
                       \<or> (\<exists>row. transactions (store (snd p)) = transactions (store w) @ [row]
                                \<and> t_type row = ''deposit'')"], goal_cases)
  case (1 w1)
  let ?row = "\<lparr>tx_id = tid, t_user_id = uid, t_amount = bind_decimal amount,
                 t_type = ''deposit'', payment_method = method,
                 payment_details =
                   (case kw_payment_details kwargs of None \<Rightarrow> ''{}'' | Some j \<Rightarrow> j),
                 payment_subtype = subtype, payment_number = number,
                 original_amount =
                   bind_decimal (case kw_original_amount kwargs of None \<Rightarrow> amount | Some d \<Rightarrow> d),
                 original_currency =
                   (case kw_original_currency kwargs of None \<Rightarrow> Some ''SYP'' | Some c \<Rightarrow> c),
                 exchange_rate =
                   (case kw_exchange_rate kwargs of None \<Rightarrow> SReal 1 | Some d \<Rightarrow> bind_decimal d),
                 t_status = ''pending''\<rparr>"
  show ?case
    using insert_frame_effect[OF 1(2,3), of ?row "''Error creating transaction''"] 1(1)
    by (elim disjE) simp_all
next
  case (2 w')
  then show ?case by simp
qed

text \<open>On the example store the call appends a row, of type \<open>deposit\<close>.\<close>

theorem create_transaction_type_deposit_witness:
  "\<exists>row. transactions
           (store (snd (create_transaction ''tx-abc'' 1001 (Fin 20000) ''syriatel'' None None
                          kw_none shop)))
         = transactions (store shop) @ [row]
         \<and> t_type row = ''deposit''"
proof -
  have "transactions
          (store (snd (create_transaction ''tx-abc'' 1001 (Fin 20000) ''syriatel'' None None
                         kw_none shop)))
        \<noteq> transactions (store shop)"
    by (simp add: create_fresh[OF shop_facts(1) shop_tx_facts(3)])
  with create_transaction_type_deposit [of "''tx-abc''" 1001 "Fin 20000" "''syriatel''" None None
         kw_none shop]
  show ?thesis by blast
qed

section \<open>\<open>ban_user\<close> and \<open>unban_user\<close>\<close>










section \<open>Connections\<close>

text \<open>
  Claim C7 does not hold for \<open>get_total_transaction_volume\<close>: it has no \<open>finally\<close>
  clause, so in a run without engine errors it returns with the connection it opened
  still open. \<open>get_total_users\<close>, which has the clause, closes its connection.
\<close>

theorem get_total_transaction_volume_keeps_connection:
  assumes "faults w = []"
  shows "open_conns (snd (get_total_transaction_volume agg w)) = Suc (open_conns w)
       \<and> open_conns (snd (get_total_users w)) = open_conns w"
  using assms
  by (auto simp: get_total_transaction_volume_def get_total_transaction_volume_try_def
      get_total_users_def get_total_users_try_def query_def select_volume_def
      prog_defs get_connection_nofault split: sum.splits prod.splits)

theorem get_total_transaction_volume_keeps_connection_witness:
  "open_conns (snd (get_total_transaction_volume hd shop)) = Suc (open_conns shop)
       \<and> open_conns (snd (get_total_users shop)) = open_conns shop"
  by (rule get_total_transaction_volume_keeps_connection [OF shop_facts(1)])

section \<open>\<open>get_user_id_by_username\<close>\<close>

lemma lstrip_at_replicate: "lstrip_at (replicate n (CHR ''@'') @ name) = lstrip_at name"
  by (induction n) (simp_all add: lstrip_at_def)

text \<open>
  Claim C8, as the code has it. \<open>get_user_id_by_username\<close> removes every leading \<open>@\<close> from
  the handle and then compares it exactly, letter case included: a handle gives the same
  result with and without leading \<open>@\<close>s, namely the id of the first account whose stored
  username equals the stripped handle. This is for a call during which the engine raises
  no error.
\<close>

theorem get_user_id_by_username_exact:
  assumes "faults w = []"
  shows "fst (get_user_id_by_username (replicate n (CHR ''@'') @ name) w)
           = fst (get_user_id_by_username name w)
       \<and> fst (get_user_id_by_username name w)
           = Inr (map_option user_id
                    (find (\<lambda>u. username u = Some (lstrip_at name)) (users (store w))))"
  using assms
  by (simp add: get_user_id_by_username_def get_user_id_by_username_try_def query_def
      select_user_id_def prog_defs get_connection_nofault lstrip_at_replicate)

theorem get_user_id_by_username_exact_witness:
  "fst (get_user_id_by_username ''@Alice'' shop) = fst (get_user_id_by_username ''Alice'' shop)
   \<and> fst (get_user_id_by_username ''Alice'' shop) = Inr (Some 1001)"
  using get_user_id_by_username_exact [OF shop_facts(1), of 1 "''Alice''"]
  by (simp add: shop_def account_1001_def lstrip_at_def)

text \<open>
  Claim C8 as stated fails, since there is no case normalisation: the stored username
  \<open>Alice\<close> is found as \<open>Alice\<close> and not as \<open>alice\<close>.
\<close>

theorem get_user_id_by_username_case_sensitive:
  "map username (users (store shop)) = [Some ''Alice'']
   \<and> fst (get_user_id_by_username ''Alice'' shop) = Inr (Some 1001)
   \<and> fst (get_user_id_by_username ''alice'' shop) = Inr None"
  by (simp add: get_user_id_by_username_def get_user_id_by_username_try_def query_def
      select_user_id_def prog_defs get_connection_nofault shop_facts(1) lstrip_at_def)
     (simp add: shop_def account_1001_def)

section \<open>Exceptions in the query operations\<close>

lemma query_returns: "\<exists>x. fst (query msg s tb w) = Inr x"
  by (cases "tb (w\<lparr>conn := False\<rparr>)")
     (auto simp: query_def bind_def conn_none_def try_finally_def try_except_def
        logger_error_def return_def if_conn_def close_def split: sum.splits)

lemma query_handles:
  assumes "fst (tb (w\<lparr>conn := False\<rparr>)) = Inl e"
  shows "fst (query msg s tb w) = Inr s"
    and "errlog (snd (query msg s tb w)) = errlog (snd (tb (w\<lparr>conn := False\<rparr>))) @ [(msg, e)]"
  using assms
  by (cases "tb (w\<lparr>conn := False\<rparr>)";
      simp add: query_def bind_def conn_none_def try_finally_def try_except_def
        logger_error_def return_def if_conn_def close_def)+

lemma volume_returns: "\<exists>x. fst (get_total_transaction_volume agg w) = Inr x"
  by (cases "get_total_transaction_volume_try agg (w\<lparr>conn := False\<rparr>)")
     (auto simp: get_total_transaction_volume_def bind_def conn_none_def try_except_def
        logger_error_def return_def split: sum.splits)

lemma volume_handles:
  assumes "fst (get_total_transaction_volume_try agg (w\<lparr>conn := False\<rparr>)) = Inl e"
  shows "fst (get_total_transaction_volume agg w) = Inr (Fin 0)"
    and "errlog (snd (get_total_transaction_volume agg w))
         = errlog (snd (get_total_transaction_volume_try agg (w\<lparr>conn := False\<rparr>)))
           @ [(''Error getting transaction volume'', e)]"
  using assms
  by (cases "get_total_transaction_volume_try agg (w\<lparr>conn := False\<rparr>)";
      simp add: get_total_transaction_volume_def bind_def conn_none_def try_except_def
        logger_error_def return_def)+

lemma empty_store_results:
  assumes "faults w = []" "users (store w) = []" "transactions (store w) = []"
  shows "fst (get_user_stats f agg uid w) = Inr None"
    and "fst (get_total_users w) = Inr 0"
    and "fst (get_active_users_last_24h recent w) = Inr 0"
    and "fst (get_total_transaction_volume agg w) = Inr (Fin 0)"
  using assms
  by (simp_all add: get_user_stats_def get_user_stats_try_def get_total_users_def
      get_total_users_try_def get_active_users_last_24h_def get_active_users_last_24h_try_def
      get_total_transaction_volume_def get_total_transaction_volume_try_def query_def
      select_user_def select_volume_def find_user_def sql_sum_def coalesce0_def
      prog_defs get_connection_nofault)

text \<open>
  Claim C10. The four reading operations never propagate an exception. When the
  \<open>try\<close> block of one of them raises \<open>e\<close>, the operation logs \<open>e\<close> and returns its fixed
  value: \<open>None\<close> for \<open>get_user_stats\<close>, \<open>0\<close> for \<open>get_total_users\<close> and
  \<open>get_active_users_last_24h\<close>, \<open>Decimal('0')\<close> for \<open>get_total_transaction_volume\<close>.
  These are the values the operations return on an empty store when nothing fails.
\<close>

theorem query_exceptions_become_sentinels:
  "(\<exists>x. fst (get_user_stats f agg uid w) = Inr x)
   \<and> (\<exists>x. fst (get_total_users w) = Inr x)
   \<and> (\<exists>x. fst (get_active_users_last_24h recent w) = Inr x)
   \<and> (\<exists>x. fst (get_total_transaction_volume agg w) = Inr x)
   \<and> (fst (get_user_stats_try f agg uid (w\<lparr>conn := False\<rparr>)) = Inl e \<longrightarrow>
        fst (get_user_stats f agg uid w) = Inr None
        \<and> errlog (snd (get_user_stats f agg uid w))
            = errlog (snd (get_user_stats_try f agg uid (w\<lparr>conn := False\<rparr>)))
              @ [(''Error getting user stats'', e)])
   \<and> (fst (get_total_users_try (w\<lparr>conn := False\<rparr>)) = Inl e \<longrightarrow>
        fst (get_total_users w) = Inr 0
        \<and> errlog (snd (get_total_users w))
            = errlog (snd (get_total_users_try (w\<lparr>conn := False\<rparr>)))
              @ [(''Error getting total users'', e)])
   \<and> (fst (get_active_users_last_24h_try recent (w\<lparr>conn := False\<rparr>)) = Inl e \<longrightarrow>
        fst (get_active_users_last_24h recent w) = Inr 0
        \<and> errlog (snd (get_active_users_last_24h recent w))
            = errlog (snd (get_active_users_last_24h_try recent (w\<lparr>conn := False\<rparr>)))
              @ [(''Error getting active users'', e)])
   \<and> (fst (get_total_transaction_volume_try agg (w\<lparr>conn := False\<rparr>)) = Inl e \<longrightarrow>
        fst (get_total_transaction_volume agg w) = Inr (Fin 0)
        \<and> errlog (snd (get_total_transaction_volume agg w))
            = errlog (snd (get_total_transaction_volume_try agg (w\<lparr>conn := False\<rparr>)))
              @ [(''Error getting transaction volume'', e)])
   \<and> (faults w = [] \<and> users (store w) = [] \<and> transactions (store w) = [] \<longrightarrow>
        fst (get_user_stats f agg uid w) = Inr None
        \<and> fst (get_total_users w) = Inr 0
        \<and> fst (get_active_users_last_24h recent w) = Inr 0
        \<and> fst (get_total_transaction_volume agg w) = Inr (Fin 0))"
proof (intro conjI impI)
  show "\<exists>x. fst (get_user_stats f agg uid w) = Inr x"
    unfolding get_user_stats_def by (rule query_returns)
  show "\<exists>x. fst (get_total_users w) = Inr x"
    unfolding get_total_users_def by (rule query_returns)
  show "\<exists>x. fst (get_active_users_last_24h recent w) = Inr x"
    unfolding get_active_users_last_24h_def by (rule query_returns)
  show "\<exists>x. fst (get_total_transaction_volume agg w) = Inr x"
    by (rule volume_returns)
next
  assume a: "fst (get_user_stats_try f agg uid (w\<lparr>conn := False\<rparr>)) = Inl e"
  show "fst (get_user_stats f agg uid w) = Inr None"
    unfolding get_user_stats_def
      by (rule query_handles(1)[of "get_user_stats_try f agg uid" w e, OF a])
  show "errlog (snd (get_user_stats f agg uid w))
            = errlog (snd (get_user_stats_try f agg uid (w\<lparr>conn := False\<rparr>)))
              @ [(''Error getting user stats'', e)]"
    unfolding get_user_stats_def
      by (rule query_handles(2)[of "get_user_stats_try f agg uid" w e, OF a])
next
  assume a: "fst (get_total_users_try (w\<lparr>conn := False\<rparr>)) = Inl e"
  show "fst (get_total_users w) = Inr 0"
    unfolding get_total_users_def
      by (rule query_handles(1)[of "get_total_users_try" w e, OF a])
  show "errlog (snd (get_total_users w))
            = errlog (snd (get_total_users_try (w\<lparr>conn := False\<rparr>)))
              @ [(''Error getting total users'', e)]"
    unfolding get_total_users_def
      by (rule query_handles(2)[of "get_total_users_try" w e, OF a])
next
  assume a: "fst (get_active_users_last_24h_try recent (w\<lparr>conn := False\<rparr>)) = Inl e"
  show "fst (get_active_users_last_24h recent w) = Inr 0"
    unfolding get_active_users_last_24h_def
      by (rule query_handles(1)[of "get_active_users_last_24h_try recent" w e, OF a])
  show "errlog (snd (get_active_users_last_24h recent w))
            = errlog (snd (get_active_users_last_24h_try recent (w\<lparr>conn := False\<rparr>)))
              @ [(''Error getting active users'', e)]"
    unfolding get_active_users_last_24h_def
      by (rule query_handles(2)[of "get_active_users_last_24h_try recent" w e, OF a])
next
  assume a: "fst (get_total_transaction_volume_try agg (w\<lparr>conn := False\<rparr>)) = Inl e"
  show "fst (get_total_transaction_volume agg w) = Inr (Fin 0)"
    by (rule volume_handles(1)[OF a])
  show "errlog (snd (get_total_transaction_volume agg w))
            = errlog (snd (get_total_transaction_volume_try agg (w\<lparr>conn := False\<rparr>)))
              @ [(''Error getting transaction volume'', e)]"
    by (rule volume_handles(2)[OF a])
next
  assume a: "faults w = [] \<and> users (store w) = [] \<and> transactions (store w) = []"
  hence b: "faults w = []" "users (store w) = []" "transactions (store w) = []" by simp_all
  show "fst (get_user_stats f agg uid w) = Inr None" by (rule empty_store_results(1)[OF b])
  show "fst (get_total_users w) = Inr 0" by (rule empty_store_results(2)[OF b])
  show "fst (get_active_users_last_24h recent w) = Inr 0" by (rule empty_store_results(3)[OF b])
  show "fst (get_total_transaction_volume agg w) = Inr (Fin 0)"
    by (rule empty_store_results(4)[OF b])
qed

text \<open>
  A store whose file cannot be opened (\<open>sqlite3.DatabaseError\<close> at \<open>connect\<close>), and
  the empty store.
\<close>

lemma shop_down_raises:
  "fst (get_user_stats_try Inr hd 1001 (shop_down\<lparr>conn := False\<rparr>)) = Inl DatabaseError"
  "fst (get_total_users_try (shop_down\<lparr>conn := False\<rparr>)) = Inl DatabaseError"
  "fst (get_active_users_last_24h_try (\<lambda>t. True) (shop_down\<lparr>conn := False\<rparr>)) = Inl DatabaseError"
  "fst (get_total_transaction_volume_try hd (shop_down\<lparr>conn := False\<rparr>)) = Inl DatabaseError"
  by (simp_all add: shop_down_def get_user_stats_try_def get_total_users_try_def
      get_active_users_last_24h_try_def get_total_transaction_volume_try_def acquire_def
      get_connection_def numeral_eq_Suc connect_once_def bind_def engine_step_def)

lemma empty_shop_facts:
  "faults empty_shop = [] \<and> users (store empty_shop) = [] \<and> transactions (store empty_shop) = []"
  by (simp add: empty_shop_def)

theorem query_exceptions_become_sentinels_witness:
  "fst (get_user_stats Inr hd 1001 shop_down) = (Inr None :: exn + string user_stats option)
   \<and> fst (get_total_users shop_down) = Inr 0
   \<and> fst (get_active_users_last_24h (\<lambda>t. True) shop_down) = Inr 0
   \<and> fst (get_total_transaction_volume hd shop_down) = Inr (Fin 0)
   \<and> fst (get_user_stats Inr hd 1001 empty_shop) = (Inr None :: exn + string user_stats option)
   \<and> fst (get_total_users empty_shop) = Inr 0
   \<and> fst (get_active_users_last_24h (\<lambda>t. True) empty_shop) = Inr 0
   \<and> fst (get_total_transaction_volume hd empty_shop) = Inr (Fin 0)"
  using query_exceptions_become_sentinels
          [of "Inr :: string \<Rightarrow> exn + string" hd 1001 shop_down "\<lambda>t. True" DatabaseError]
        query_exceptions_become_sentinels
          [of "Inr :: string \<Rightarrow> exn + string" hd 1001 empty_shop "\<lambda>t. True" DatabaseError]
        shop_down_raises empty_shop_facts
  by blast

end
